theory Spec2Isabelle
  imports Complex_Main
begin

section \<open>The queue handler of stock-db-postgres\<close>

text \<open>
  A shallow embedding of \<^verbatim>\<open>src/app/queue_handler.py\<close>: the RabbitMQ listener
  (\<^verbatim>\<open>_start_rabbitmq_listener\<close> with its closure \<^verbatim>\<open>on_message\<close>) and the SQS
  listener (\<^verbatim>\<open>_start_sqs_listener\<close>).

  Everything the listeners do to the outside world is appended to a trace of effects, in
  program order. Everything the outside world decides (the clock, whether the callback or a
  transport call raises, what a poll returns, whether the shutdown event is set when the
  loop tests it) is an input of the model. A transport call that raises is still recorded
  in the trace: the call was made.

  Python exceptions are values of type \<open>exn\<close>; all of them are instances of
  \<^verbatim>\<open>Exception\<close>, which is what the handlers of the source catch. The time of
  \<^verbatim>\<open>time.time()\<close> is a real number. The log messages are the source's format strings
  without their leading pictograph.
\<close>

subsection \<open>Data\<close>

datatype exn = Exception string

datatype level = INFO | ERROR | EXCEPTION

datatype 'm effect =
    Callback "'m list"
  | BasicAck nat
  | BasicNack nat bool
  | ReceiveMessage int
  | DeleteMessage string
  | Log level string
  | Sleep real
  | QueueDeclare
  | BasicQos int
  | BasicConsume
  | StopConsuming
  | ConnectionClose

text \<open>
  The values of \<^verbatim>\<open>config.get_batch_size()\<close>, \<^verbatim>\<open>config.get_flush_timeout()\<close> and
  \<^verbatim>\<open>config.get_polling_interval()\<close>. Their module, \<^verbatim>\<open>app.config_shared\<close>, is not part
  of the sources, so the three values are parameters.
\<close>

record config =
  batch_size :: int
  flush_timeout :: real
  polling_interval :: real

text \<open>
  \<^verbatim>\<open>json.loads\<close> is a parameter \<open>loads\<close> of type \<open>string \<Rightarrow> 'm option\<close>:
  \<open>None\<close> when it raises.
\<close>

type_synonym 'm loads = "string \<Rightarrow> 'm option"

text \<open>The payloads handed to the callback, in call order.\<close>

fun dispatched :: "'m effect list \<Rightarrow> 'm list list" where
  "dispatched [] = []"
| "dispatched (Callback p # es) = p # dispatched es"
| "dispatched (_ # es) = dispatched es"



text \<open>
  \<^verbatim>\<open>for t in tokens: call(t)\<close>, where the call may raise: the loop stops at the first
  call that raises, and the exception leaves the loop.
\<close>

fun for_each :: "('t \<Rightarrow> 'm effect) \<Rightarrow> ('t \<Rightarrow> exn option) \<Rightarrow> 't list \<Rightarrow> 'm effect list \<times> exn option" where
  "for_each call raises [] = ([], None)"
| "for_each call raises (t # ts) =
     (case raises t of
        Some e \<Rightarrow> ([call t], Some e)
      | None \<Rightarrow> (case for_each call raises ts of (tr, r) \<Rightarrow> (call t # tr, r)))"

subsection \<open>The RabbitMQ listener\<close>

text \<open>
  What the world decides during one delivery: the value of \<^verbatim>\<open>time.time()\<close>, and for the
  callback, \<^verbatim>\<open>ch.basic_ack\<close> and \<^verbatim>\<open>ch.basic_nack\<close> whether the call raises.
\<close>

record 'm push_env =
  time_time :: real
  callback :: "'m list \<Rightarrow> exn option"
  basic_ack :: "nat \<Rightarrow> exn option"
  basic_nack :: "nat \<Rightarrow> exn option"

text \<open>The variables the closure captures, and the trace.\<close>

record 'm rabbitmq_state =
  message_batch :: "('m \<times> nat) list"
  last_flush_time :: real
  trace :: "'m effect list"

text \<open>The \<^verbatim>\<open>try\<close> block of the flush, lines 78 to 83.\<close>

definition rabbitmq_try :: "'m push_env \<Rightarrow> ('m \<times> nat) list \<Rightarrow> 'm effect list \<times> exn option" where
  "rabbitmq_try env batch =
     (let payload = map fst batch in
      case callback env payload of
        Some e \<Rightarrow> ([Callback payload], Some e)
      | None \<Rightarrow>
          (case for_each BasicAck (basic_ack env) (map snd batch) of
             (tr, Some e) \<Rightarrow> (Callback payload # tr, Some e)
           | (tr, None) \<Rightarrow>
               (Callback payload # tr @
                  [Log INFO ''Processed and acknowledged %d RabbitMQ messages''], None)))"

text \<open>The \<^verbatim>\<open>except Exception\<close> block of the flush, lines 84 to 87.\<close>

definition rabbitmq_except :: "'m push_env \<Rightarrow> ('m \<times> nat) list \<Rightarrow> 'm effect list \<times> exn option" where
  "rabbitmq_except env batch =
     (case for_each (\<lambda>t. BasicNack t False) (basic_nack env) (map snd batch) of
        (tr, r) \<Rightarrow> (Log EXCEPTION ''Batch processing failed, NACKing all messages'' # tr, r))"

text \<open>
  The whole statement, lines 78 to 90. The \<^verbatim>\<open>finally\<close> block runs on every path; an
  exception raised inside the \<^verbatim>\<open>except\<close> block leaves \<^verbatim>\<open>on_message\<close> after it.
\<close>

definition rabbitmq_flush :: "'m push_env \<Rightarrow> real \<Rightarrow> 'm rabbitmq_state \<Rightarrow> 'm rabbitmq_state \<times> exn option" where
  "rabbitmq_flush env now st =
     (case rabbitmq_try env (message_batch st) of
        (tr1, None) \<Rightarrow>
          (st\<lparr>message_batch := [], last_flush_time := now, trace := trace st @ tr1\<rparr>, None)
      | (tr1, Some e) \<Rightarrow>
          (case rabbitmq_except env (message_batch st) of
             (tr2, r) \<Rightarrow>
               (st\<lparr>message_batch := [], last_flush_time := now,
                   trace := trace st @ tr1 @ tr2\<rparr>, r)))"

text \<open>\<^verbatim>\<open>on_message(ch, method, properties, body)\<close>, lines 66 to 90.\<close>

definition on_message ::
  "config \<Rightarrow> 'm loads \<Rightarrow> 'm push_env \<Rightarrow> 'm rabbitmq_state \<Rightarrow> nat \<times> string \<Rightarrow> 'm rabbitmq_state \<times> exn option" where
  "on_message cfg loads env st d =
     (case d of (delivery_tag, body) \<Rightarrow>
        (case loads body of
           None \<Rightarrow>
             (st\<lparr>trace := trace st @
                   [Log EXCEPTION ''Failed to parse RabbitMQ message'',
                    BasicNack delivery_tag False]\<rparr>,
              basic_nack env delivery_tag)
         | Some message \<Rightarrow>
             (let st1 = st\<lparr>message_batch := message_batch st @ [(message, delivery_tag)]\<rparr>;
                  now = time_time env
              in if int (length (message_batch st1)) \<ge> batch_size cfg
                    \<or> now - last_flush_time st1 \<ge> flush_timeout cfg
                 then rabbitmq_flush env now st1
                 else (st1, None))))"

text \<open>
  \<^verbatim>\<open>connection.process_data_events(time_limit=1)\<close> hands the deliveries that arrive during
  the call to \<^verbatim>\<open>on_message\<close>, one after the other; an exception of \<^verbatim>\<open>on_message\<close>
  leaves the call.
\<close>

fun process_data_events ::
  "config \<Rightarrow> 'm loads \<Rightarrow> 'm rabbitmq_state \<Rightarrow> ('m push_env \<times> nat \<times> string) list \<Rightarrow> 'm rabbitmq_state \<times> exn option" where
  "process_data_events cfg loads st [] = (st, None)"
| "process_data_events cfg loads st ((env, d) # ds) =
     (case on_message cfg loads env st d of
        (st', Some e) \<Rightarrow> (st', Some e)
      | (st', None) \<Rightarrow> process_data_events cfg loads st' ds)"

text \<open>
  How a listener is found when the inputs of the model end: still in its loop, out of it
  because the shutdown event was set, or left by an exception.
\<close>

datatype status = Running | Stopped | Raised exn | Returned

text \<open>
  \<^verbatim>\<open>_graceful_shutdown\<close>, lines 35 to 37, which \<^verbatim>\<open>consume_messages\<close> installs as
  the handler of the two termination signals: it logs and sets \<^verbatim>\<open>shutdown_event\<close>.
  The event is the boolean the loops below carry; this is what the handler adds to the
  trace.
\<close>

definition graceful_shutdown :: "'m effect list \<Rightarrow> 'm effect list" where
  "graceful_shutdown tr = tr @ [Log INFO ''Shutdown signal received, stopping listener...'']"

definition rabbitmq_signal :: "bool \<Rightarrow> 'm rabbitmq_state \<Rightarrow> 'm rabbitmq_state" where
  "rabbitmq_signal signal st = (if signal then st\<lparr>trace := graceful_shutdown (trace st)\<rparr> else st)"

text \<open>
  The loop of lines 96 to 98. The boolean is the value of \<^verbatim>\<open>shutdown_event.is_set()\<close>
  when the loop condition is tested. Each element of the input is one pass of the loop:
  whether a termination signal arrives during the pass, that is after the test and before
  the next one, and the deliveries of the call of \<^verbatim>\<open>process_data_events\<close>. Nothing in
  a pass reads the event, so the handler may run at any point of the pass with the same
  result; its log line is recorded at the start of the pass.
\<close>

fun rabbitmq_loop ::
  "config \<Rightarrow> 'm loads \<Rightarrow> bool \<Rightarrow> 'm rabbitmq_state \<Rightarrow> (bool \<times> ('m push_env \<times> nat \<times> string) list) list \<Rightarrow> 'm rabbitmq_state \<times> status" where
  "rabbitmq_loop cfg loads True st its = (st, Stopped)"
| "rabbitmq_loop cfg loads False st [] = (st, Running)"
| "rabbitmq_loop cfg loads False st ((signal, ds) # its) =
     (case process_data_events cfg loads (rabbitmq_signal signal st) ds of
        (st', Some e) \<Rightarrow> (st', Raised e)
      | (st', None) \<Rightarrow> rabbitmq_loop cfg loads signal st' its)"

text \<open>
  \<^verbatim>\<open>_start_rabbitmq_listener\<close> from line 60 on, once the connection is open: one run of
  the function (the \<^verbatim>\<open>tenacity\<close> decorator calls it again when it raises). The
  \<^verbatim>\<open>finally\<close> block of lines 99 to 101 runs when the loop is left. \<open>is_set\<close> is the
  value of the event when the loop is entered.
\<close>

definition rabbitmq_init :: "config \<Rightarrow> real \<Rightarrow> 'm rabbitmq_state" where
  "rabbitmq_init cfg start =
     \<lparr>message_batch = [], last_flush_time = start,
      trace = [QueueDeclare, BasicQos (batch_size cfg), BasicConsume,
               Log INFO ''Listening on RabbitMQ queue: %s'']\<rparr>"

text \<open>Lines 95 to 101, from any state of the closure's variables.\<close>

definition rabbitmq_listen ::
  "config \<Rightarrow> 'm loads \<Rightarrow> bool \<Rightarrow> 'm rabbitmq_state \<Rightarrow> (bool \<times> ('m push_env \<times> nat \<times> string) list) list \<Rightarrow> 'm rabbitmq_state \<times> status" where
  "rabbitmq_listen cfg loads is_set st its =
     (case rabbitmq_loop cfg loads is_set st its of
        (st', Running) \<Rightarrow> (st', Running)
      | (st', r) \<Rightarrow> (st'\<lparr>trace := trace st' @ [StopConsuming, ConnectionClose]\<rparr>, r))"

definition start_rabbitmq_listener ::
  "config \<Rightarrow> 'm loads \<Rightarrow> bool \<Rightarrow> real \<Rightarrow> (bool \<times> ('m push_env \<times> nat \<times> string) list) list \<Rightarrow> 'm rabbitmq_state \<times> status" where
  "start_rabbitmq_listener cfg loads is_set start its =
     rabbitmq_listen cfg loads is_set (rabbitmq_init cfg start) its"

text \<open>
  Every decoded message the listener has taken so far, in arrival order: those handed to
  the callback, then those pending.
\<close>

definition accepted :: "'m rabbitmq_state \<Rightarrow> 'm list" where
  "accepted st = concat (dispatched (trace st)) @ map fst (message_batch st)"

subsection \<open>The SQS listener\<close>

text \<open>
  An element of \<^verbatim>\<open>response["Messages"]\<close>: a dictionary, read at the keys
  \<^verbatim>\<open>"Body"\<close> and \<^verbatim>\<open>"ReceiptHandle"\<close>; \<open>None\<close> is a missing key.
\<close>

record sqs_message =
  Body :: "string option"
  ReceiptHandle :: "string option"

text \<open>
  What the world decides during one pass of the loop: whether \<^verbatim>\<open>receive_message\<close>
  raises or which messages it returns, the value of \<^verbatim>\<open>time.time()\<close>, and for the callback
  and \<^verbatim>\<open>delete_message\<close> whether the call raises.
\<close>

record 'm sqs_env =
  receive_message :: "exn + sqs_message list"
  sqs_time :: real
  sqs_callback :: "'m list \<Rightarrow> exn option"
  delete_message :: "string \<Rightarrow> exn option"

record 'm sqs_state =
  sqs_batch :: "'m list"
  receipt_handles :: "string list"
  sqs_last_flush_time :: real
  sqs_trace :: "'m effect list"

text \<open>
  The body of the \<^verbatim>\<open>for\<close> loop, lines 136 to 141. A message is appended to the batch
  before its receipt handle is read.
\<close>

definition sqs_parse_failed :: "'m sqs_state \<Rightarrow> 'm sqs_state" where
  "sqs_parse_failed st =
     st\<lparr>sqs_trace := sqs_trace st @ [Log EXCEPTION ''Failed to parse SQS message'']\<rparr>"

definition sqs_append :: "'m loads \<Rightarrow> 'm sqs_state \<Rightarrow> sqs_message \<Rightarrow> 'm sqs_state" where
  "sqs_append loads st msg =
     (case Body msg of
        None \<Rightarrow> sqs_parse_failed st
      | Some body \<Rightarrow>
          (case loads body of
             None \<Rightarrow> sqs_parse_failed st
           | Some message \<Rightarrow>
               (let st1 = st\<lparr>sqs_batch := sqs_batch st @ [message]\<rparr> in
                case ReceiptHandle msg of
                  None \<Rightarrow> sqs_parse_failed st1
                | Some handle \<Rightarrow> st1\<lparr>receipt_handles := receipt_handles st1 @ [handle]\<rparr>)))"

fun sqs_append_all :: "'m loads \<Rightarrow> 'm sqs_state \<Rightarrow> sqs_message list \<Rightarrow> 'm sqs_state" where
  "sqs_append_all loads st [] = st"
| "sqs_append_all loads st (msg # msgs) = sqs_append_all loads (sqs_append loads st msg) msgs"

text \<open>
  The flush, lines 146 to 156. Its \<^verbatim>\<open>except Exception\<close> block only logs, so no exception
  leaves the statement.
\<close>

definition sqs_try :: "'m sqs_env \<Rightarrow> 'm sqs_state \<Rightarrow> 'm effect list \<times> exn option" where
  "sqs_try env st =
     (case sqs_callback env (sqs_batch st) of
        Some e \<Rightarrow> ([Callback (sqs_batch st)], Some e)
      | None \<Rightarrow>
          (case for_each DeleteMessage (delete_message env) (receipt_handles st) of
             (tr, Some e) \<Rightarrow> (Callback (sqs_batch st) # tr, Some e)
           | (tr, None) \<Rightarrow>
               (Callback (sqs_batch st) # tr @
                  [Log INFO ''Processed and deleted %d SQS messages''], None)))"

definition sqs_flush :: "'m sqs_env \<Rightarrow> real \<Rightarrow> 'm sqs_state \<Rightarrow> 'm sqs_state" where
  "sqs_flush env now st =
     (case sqs_try env st of
        (tr, None) \<Rightarrow>
          st\<lparr>sqs_batch := [], receipt_handles := [], sqs_last_flush_time := now,
             sqs_trace := sqs_trace st @ tr\<rparr>
      | (tr, Some e) \<Rightarrow>
          st\<lparr>sqs_batch := [], receipt_handles := [], sqs_last_flush_time := now,
             sqs_trace := sqs_trace st @ tr @
               [Log EXCEPTION ''SQS batch processing failed, messages left in queue'']\<rparr>)"

text \<open>
  The \<^verbatim>\<open>try\<close> block of the loop body, lines 127 to 156: the only exception that leaves
  it is one of \<^verbatim>\<open>receive_message\<close>.
\<close>

definition sqs_poll :: "config \<Rightarrow> 'm loads \<Rightarrow> 'm sqs_env \<Rightarrow> 'm sqs_state \<Rightarrow> 'm sqs_state \<times> exn option" where
  "sqs_poll cfg loads env st =
     (let st0 = st\<lparr>sqs_trace := sqs_trace st @ [ReceiveMessage (batch_size cfg)]\<rparr> in
      case receive_message env of
        Inl e \<Rightarrow> (st0, Some e)
      | Inr messages \<Rightarrow>
          (let now = sqs_time env;
               st1 = sqs_append_all loads st0 messages
           in if sqs_batch st1 \<noteq> []
                 \<and> (int (length (sqs_batch st1)) \<ge> batch_size cfg
                    \<or> now - sqs_last_flush_time st1 \<ge> flush_timeout cfg)
              then (sqs_flush env now st1, None)
              else (st1, None)))"

text \<open>One pass of the loop body, lines 126 to 160, with the handler of lines 158 to 160.\<close>

definition sqs_iteration :: "config \<Rightarrow> 'm loads \<Rightarrow> 'm sqs_env \<Rightarrow> 'm sqs_state \<Rightarrow> 'm sqs_state" where
  "sqs_iteration cfg loads env st =
     (case sqs_poll cfg loads env st of
        (st', None) \<Rightarrow> st'
      | (st', Some e) \<Rightarrow>
          st'\<lparr>sqs_trace := sqs_trace st' @
                [Log ERROR ''SQS polling error: %s'', Sleep (polling_interval cfg)]\<rparr>)"

definition sqs_signal :: "bool \<Rightarrow> 'm sqs_state \<Rightarrow> 'm sqs_state" where
  "sqs_signal signal st =
     (if signal then st\<lparr>sqs_trace := graceful_shutdown (sqs_trace st)\<rparr> else st)"

text \<open>
  The loop of line 125, with the same inputs as the RabbitMQ loop: the value of the event at
  the test, and for each pass whether a signal arrives during it and what the world decides.
\<close>

fun sqs_loop ::
  "config \<Rightarrow> 'm loads \<Rightarrow> bool \<Rightarrow> 'm sqs_state \<Rightarrow> (bool \<times> 'm sqs_env) list \<Rightarrow> 'm sqs_state \<times> status" where
  "sqs_loop cfg loads True st its = (st, Stopped)"
| "sqs_loop cfg loads False st [] = (st, Running)"
| "sqs_loop cfg loads False st ((signal, env) # its) =
     sqs_loop cfg loads signal (sqs_iteration cfg loads env (sqs_signal signal st)) its"


text \<open>
  \<^verbatim>\<open>_start_sqs_listener\<close>: \<open>client\<close> says whether \<^verbatim>\<open>boto3.client\<close> raises one of the
  two exceptions of line 115, \<open>is_set\<close> is the value of the event when the loop is entered.
\<close>

definition sqs_init :: "real \<Rightarrow> 'm sqs_state" where
  "sqs_init start =
     \<lparr>sqs_batch = [], receipt_handles = [], sqs_last_flush_time = start,
      sqs_trace = [Log INFO ''Polling SQS queue: %s'']\<rparr>"

definition start_sqs_listener ::
  "config \<Rightarrow> 'm loads \<Rightarrow> exn option \<Rightarrow> bool \<Rightarrow> real \<Rightarrow> (bool \<times> 'm sqs_env) list \<Rightarrow> 'm sqs_state \<times> status" where
  "start_sqs_listener cfg loads client is_set start its =
     (case client of
        Some e \<Rightarrow>
          (\<lparr>sqs_batch = [], receipt_handles = [], sqs_last_flush_time = start,
            sqs_trace = [Log ERROR ''Failed to initialize SQS client: %s'']\<rparr>, Returned)
      | None \<Rightarrow> sqs_loop cfg loads is_set (sqs_init start) its)"


text \<open>What line 137 makes of a polled message, when it does not raise.\<close>

definition decoded :: "'m loads \<Rightarrow> sqs_message \<Rightarrow> 'm option" where
  "decoded loads msg = (case Body msg of None \<Rightarrow> None | Some body \<Rightarrow> loads body)"

text \<open>The receipt handle line 139 records for a polled message, if any.\<close>

definition handle_of :: "'m loads \<Rightarrow> sqs_message \<Rightarrow> string option" where
  "handle_of loads msg = (case decoded loads msg of None \<Rightarrow> None | Some m \<Rightarrow> ReceiptHandle msg)"

text \<open>
  The invariants behind the bound on a flushed batch: what is pending is below the
  threshold between two events, and every payload handed over so far is within the bound.
\<close>

definition push_bounded :: "config \<Rightarrow> 'm rabbitmq_state \<Rightarrow> bool" where
  "push_bounded cfg st \<longleftrightarrow>
     int (length (message_batch st)) < batch_size cfg
     \<and> (\<forall>p \<in> set (dispatched (trace st)). int (length p) \<le> batch_size cfg)"

definition sqs_bounded :: "config \<Rightarrow> 'm sqs_state \<Rightarrow> bool" where
  "sqs_bounded cfg st \<longleftrightarrow>
     int (length (sqs_batch st)) < batch_size cfg
     \<and> (\<forall>p \<in> set (dispatched (sqs_trace st)). int (length p) < 2 * batch_size cfg)"

subsection \<open>Sample inputs\<close>

text \<open>
  The sample bodies are JSON objects with one integer member, as in
  \<^verbatim>\<open>{"id": 1}\<close>, and the text \<^verbatim>\<open>not json\<close>. A decoded object is the list of its
  members.
\<close>

type_synonym sample_message = "(string \<times> int) list"

definition id_body :: "string \<Rightarrow> string" where
  "id_body digit = ''{\"id\": '' @ digit @ ''}''"

definition id_message :: "int \<Rightarrow> sample_message" where
  "id_message n = [(''id'', n)]"

text \<open>
  \<^verbatim>\<open>json.loads\<close> at the bodies of the samples, as a table: the five objects decode, and
  \<^verbatim>\<open>not json\<close>, on which \<^verbatim>\<open>json.loads\<close> raises, has no entry. No sample uses a body
  other than these six, and the table says nothing about \<^verbatim>\<open>json.loads\<close> elsewhere; the
  theorems that are not about a sample hold for every decoder.
\<close>

definition sample_loads :: "sample_message loads" where
  "sample_loads body =
     (if body = id_body ''1'' then Some (id_message 1)
      else if body = id_body ''2'' then Some (id_message 2)
      else if body = id_body ''3'' then Some (id_message 3)
      else if body = id_body ''4'' then Some (id_message 4)
      else if body = id_body ''5'' then Some (id_message 5)
      else None)"

definition sample_cfg :: "int \<Rightarrow> config" where
  "sample_cfg n = \<lparr>batch_size = n, flush_timeout = 60, polling_interval = 5\<rparr>"

text \<open>Environments of a delivery at time \<open>t\<close>: nothing raises; the callback raises.\<close>

definition quiet_env :: "real \<Rightarrow> sample_message push_env" where
  "quiet_env t =
     \<lparr>time_time = t, callback = (\<lambda>_. None), basic_ack = (\<lambda>_. None),
      basic_nack = (\<lambda>_. None)\<rparr>"

definition callback_raises_env :: "real \<Rightarrow> sample_message push_env" where
  "callback_raises_env t =
     \<lparr>time_time = t, callback = (\<lambda>_. Some (Exception ''OperationalError'')),
      basic_ack = (\<lambda>_. None), basic_nack = (\<lambda>_. None)\<rparr>"

text \<open>Nothing raises but \<^verbatim>\<open>basic_nack\<close>.\<close>

definition nack_raises_env :: "real \<Rightarrow> sample_message push_env" where
  "nack_raises_env t =
     \<lparr>time_time = t, callback = (\<lambda>_. None), basic_ack = (\<lambda>_. None),
      basic_nack = (\<lambda>_. Some (Exception ''ChannelWrongStateError''))\<rparr>"

text \<open>The callback returns, and \<^verbatim>\<open>basic_ack\<close> raises at delivery tag 2.\<close>

definition ack_raises_env :: "real \<Rightarrow> sample_message push_env" where
  "ack_raises_env t =
     \<lparr>time_time = t, callback = (\<lambda>_. None),
      basic_ack = (\<lambda>tag. if tag = 2 then Some (Exception ''ChannelWrongStateError'') else None),
      basic_nack = (\<lambda>_. None)\<rparr>"

definition three_pending :: "sample_message rabbitmq_state" where
  "three_pending =
     \<lparr>message_batch = [(id_message 1, 1), (id_message 2, 2), (id_message 3, 3)], last_flush_time = 0,
      trace = []\<rparr>"

text \<open>Environments of a poll at time \<open>t\<close> that returns \<open>ms\<close>.\<close>

definition quiet_poll :: "real \<Rightarrow> sqs_message list \<Rightarrow> sample_message sqs_env" where
  "quiet_poll t ms =
     \<lparr>receive_message = Inr ms, sqs_time = t, sqs_callback = (\<lambda>_. None),
      delete_message = (\<lambda>_. None)\<rparr>"

definition callback_raises_poll :: "real \<Rightarrow> sqs_message list \<Rightarrow> sample_message sqs_env" where
  "callback_raises_poll t ms =
     \<lparr>receive_message = Inr ms, sqs_time = t,
      sqs_callback = (\<lambda>_. Some (Exception ''OperationalError'')),
      delete_message = (\<lambda>_. None)\<rparr>"



definition sqs_msg :: "string \<Rightarrow> string \<Rightarrow> sqs_message" where
  "sqs_msg body handle = \<lparr>Body = Some body, ReceiptHandle = Some handle\<rparr>"

text \<open>
  The SQS listener with \<open>batch_size = 3\<close>, started at time 0, after a poll that returned
  two valid messages.
\<close>

definition two_pending :: "sample_message sqs_state" where
  "two_pending =
     \<lparr>sqs_batch = [id_message 1, id_message 2], receipt_handles = [''h1'', ''h2''],
      sqs_last_flush_time = 0,
      sqs_trace = [Log INFO ''Polling SQS queue: %s'', ReceiveMessage 3]\<rparr>"

text \<open>Three valid deliveries in quick succession.\<close>

definition three_deliveries :: "(sample_message push_env \<times> nat \<times> string) list" where
  "three_deliveries =
     [(quiet_env 1, 1, id_body ''1''), (quiet_env 1, 2, id_body ''2''), (quiet_env 2, 3, id_body ''3'')]"

text \<open>A delivery that does not decode, followed by a valid one.\<close>

definition malformed_then_valid :: "(sample_message push_env \<times> nat \<times> string) list" where
  "malformed_then_valid = [(nack_raises_env 1, 1, ''not json''), (quiet_env 2, 2, id_body ''2'')]"






text \<open>Two polls that return two and three valid messages.\<close>

definition five_in_two_polls :: "(bool \<times> sample_message sqs_env) list" where
  "five_in_two_polls =
     [(False, quiet_poll 1 [sqs_msg (id_body ''1'') ''h1'', sqs_msg (id_body ''2'') ''h2'']),
      (False, quiet_poll 2 [sqs_msg (id_body ''3'') ''h3'', sqs_msg (id_body ''4'') ''h4'', sqs_msg (id_body ''5'') ''h5''])]"

text \<open>Two valid deliveries at time 0, and a third at time 62.\<close>

definition two_deliveries :: "(sample_message push_env \<times> nat \<times> string) list" where
  "two_deliveries = [(quiet_env 0, 1, id_body ''1''), (quiet_env 0, 2, id_body ''2'')]"

definition late_delivery :: "(sample_message push_env \<times> nat \<times> string) list" where
  "late_delivery = [(quiet_env 62, 3, id_body ''3'')]"

text \<open>A poll at time \<open>t\<close> that returns no message.\<close>

definition idle_poll :: "real \<Rightarrow> bool \<times> sample_message sqs_env" where
  "idle_poll t = (False, quiet_poll t [])"

section \<open>Properties\<close>

subsection \<open>Traces and token loops\<close>

lemma dispatched_append: "dispatched (xs @ ys) = dispatched xs @ dispatched ys"
  by (induction xs rule: dispatched.induct) simp_all

lemma for_each_ok:
  "(\<forall>t \<in> set ts. raises t = None) \<Longrightarrow> for_each call raises ts = (map call ts, None)"
  by (induction ts) simp_all

lemma dispatched_for_each:
  assumes "\<And>t. dispatched [call t] = []"
    and "for_each call raises ts = (tr, r)"
  shows "dispatched tr = []"
  using assms(2)
proof (induction ts arbitrary: tr r)
  case Nil
  then show ?case by simp
next
  case (Cons t ts)
  have skip: "dispatched (call t # es) = dispatched es" for es
    using dispatched_append [of "[call t]" es] assms(1) by simp
  show ?case
  proof (cases "raises t")
    case None
    obtain tr' r' where rec: "for_each call raises ts = (tr', r')"
      by (cases "for_each call raises ts")
    then have "dispatched tr' = []" by (rule Cons.IH)
    with Cons.prems None rec skip show ?thesis by auto
  next
    case (Some e)
    with Cons.prems assms(1) show ?thesis by auto
  qed
qed

lemma dispatched_acks: "for_each BasicAck raises ts = (tr, r) \<Longrightarrow> dispatched tr = []"
  by (erule dispatched_for_each [rotated]) simp

lemma dispatched_nacks:
  "for_each (\<lambda>t. BasicNack t False) raises ts = (tr, r) \<Longrightarrow> dispatched tr = []"
  by (erule dispatched_for_each [rotated]) simp

lemma dispatched_deletes: "for_each DeleteMessage raises ts = (tr, r) \<Longrightarrow> dispatched tr = []"
  by (erule dispatched_for_each [rotated]) simp

lemma dispatched_rabbitmq_try:
  "rabbitmq_try env batch = (tr, r) \<Longrightarrow> dispatched tr = [map fst batch]"
  by (auto simp: rabbitmq_try_def Let_def dispatched_append
      split: option.splits prod.splits dest: dispatched_acks)

lemma dispatched_rabbitmq_except:
  "rabbitmq_except env batch = (tr, r) \<Longrightarrow> dispatched tr = []"
  by (auto simp: rabbitmq_except_def split: prod.splits dest: dispatched_nacks)

lemma dispatched_rabbitmq_flush:
  "dispatched (trace (fst (rabbitmq_flush env now st))) =
     dispatched (trace st) @ [map fst (message_batch st)]"
proof -
  obtain tr1 r1 where t: "rabbitmq_try env (message_batch st) = (tr1, r1)"
    by (cases "rabbitmq_try env (message_batch st)")
  obtain tr2 r2 where x: "rabbitmq_except env (message_batch st) = (tr2, r2)"
    by (cases "rabbitmq_except env (message_batch st)")
  have "dispatched tr1 = [map fst (message_batch st)]"
    using t by (rule dispatched_rabbitmq_try)
  moreover have "dispatched tr2 = []"
    using x by (rule dispatched_rabbitmq_except)
  ultimately show ?thesis
    using t x by (cases r1) (simp_all add: rabbitmq_flush_def dispatched_append)
qed

lemma dispatched_sqs_try:
  "sqs_try env st = (tr, r) \<Longrightarrow> dispatched tr = [sqs_batch st]"
  by (auto simp: sqs_try_def dispatched_append split: option.splits prod.splits
      dest: dispatched_deletes)

lemma dispatched_sqs_flush:
  "dispatched (sqs_trace (sqs_flush env now st)) = dispatched (sqs_trace st) @ [sqs_batch st]"
proof -
  obtain tr r where t: "sqs_try env st = (tr, r)"
    by (cases "sqs_try env st")
  then have "dispatched tr = [sqs_batch st]"
    by (rule dispatched_sqs_try)
  then show ?thesis
    using t by (cases r) (simp_all add: sqs_flush_def dispatched_append)
qed

text \<open>What one delivery adds to the payloads handed over, and what it leaves pending.\<close>

lemma dispatched_on_message:
  "dispatched (trace (fst (on_message cfg loads env st (tag, body)))) =
     dispatched (trace st) @
       (case loads body of
          None \<Rightarrow> []
        | Some m \<Rightarrow>
            if int (length (message_batch st)) + 1 \<ge> batch_size cfg
               \<or> time_time env - last_flush_time st \<ge> flush_timeout cfg
            then [map fst (message_batch st) @ [m]] else [])"
  by (simp add: on_message_def Let_def dispatched_append dispatched_rabbitmq_flush
      split: option.splits)

lemma message_batch_on_message:
  "message_batch (fst (on_message cfg loads env st (tag, body))) =
     (case loads body of
        None \<Rightarrow> message_batch st
      | Some m \<Rightarrow>
          if int (length (message_batch st)) + 1 \<ge> batch_size cfg
             \<or> time_time env - last_flush_time st \<ge> flush_timeout cfg
          then [] else message_batch st @ [(m, tag)])"
  by (simp add: on_message_def Let_def rabbitmq_flush_def split: option.splits prod.splits)

lemma accepted_on_message:
  "accepted (fst (on_message cfg loads env st (tag, body))) =
     accepted st @ (case loads body of None \<Rightarrow> [] | Some m \<Rightarrow> [m])"
  by (simp add: accepted_def dispatched_on_message message_batch_on_message
      split: option.splits)


text \<open>The SQS side.\<close>

lemma sqs_append_fields:
  "sqs_batch (sqs_append loads st msg) =
     sqs_batch st @ (case decoded loads msg of None \<Rightarrow> [] | Some m \<Rightarrow> [m])"
  "receipt_handles (sqs_append loads st msg) =
     receipt_handles st @
       (case decoded loads msg of
          None \<Rightarrow> []
        | Some m \<Rightarrow> (case ReceiptHandle msg of None \<Rightarrow> [] | Some h \<Rightarrow> [h]))"
  "sqs_last_flush_time (sqs_append loads st msg) = sqs_last_flush_time st"
  "dispatched (sqs_trace (sqs_append loads st msg)) = dispatched (sqs_trace st)"
  by (simp_all add: sqs_append_def sqs_parse_failed_def decoded_def Let_def dispatched_append
      split: option.splits)

lemma sqs_append_all_fields:
  "sqs_batch (sqs_append_all loads st ms) = sqs_batch st @ List.map_filter (decoded loads) ms"
  "receipt_handles (sqs_append_all loads st ms) =
     receipt_handles st @ List.map_filter (handle_of loads) ms"
  "sqs_last_flush_time (sqs_append_all loads st ms) = sqs_last_flush_time st"
  "dispatched (sqs_trace (sqs_append_all loads st ms)) = dispatched (sqs_trace st)"
  by (induction ms arbitrary: st;
      simp add: sqs_append_fields handle_of_def split: option.splits)+

lemma dispatched_sqs_iteration:
  "dispatched (sqs_trace (sqs_iteration cfg loads env st)) =
     dispatched (sqs_trace st) @
       (case receive_message env of
          Inl e \<Rightarrow> []
        | Inr ms \<Rightarrow>
            if sqs_batch st @ List.map_filter (decoded loads) ms \<noteq> []
               \<and> (int (length (sqs_batch st @ List.map_filter (decoded loads) ms)) \<ge> batch_size cfg
                  \<or> sqs_time env - sqs_last_flush_time st \<ge> flush_timeout cfg)
            then [sqs_batch st @ List.map_filter (decoded loads) ms] else [])"
  by (simp add: sqs_iteration_def sqs_poll_def Let_def dispatched_append dispatched_sqs_flush
      sqs_append_all_fields split: sum.splits)

lemma sqs_batch_sqs_iteration:
  "sqs_batch (sqs_iteration cfg loads env st) =
       (case receive_message env of
          Inl e \<Rightarrow> sqs_batch st
        | Inr ms \<Rightarrow>
            if sqs_batch st @ List.map_filter (decoded loads) ms \<noteq> []
               \<and> (int (length (sqs_batch st @ List.map_filter (decoded loads) ms)) \<ge> batch_size cfg
                  \<or> sqs_time env - sqs_last_flush_time st \<ge> flush_timeout cfg)
            then [] else sqs_batch st @ List.map_filter (decoded loads) ms)"
  by (simp add: sqs_iteration_def sqs_poll_def Let_def sqs_flush_def
      sqs_append_all_fields split: sum.splits prod.splits option.splits)


subsection \<open>What a flush leaves behind\<close>

text \<open>
  C1. In both listeners a flush ends with the pending batch empty (for SQS, the receipt
  handles too) and \<open>last_flush_time\<close> set to the time read before the flush, whatever the
  callback and the transport calls did: the theorem holds for every environment, those in
  which the callback raises included.
\<close>

theorem flush_clears_batch:
  "message_batch (fst (rabbitmq_flush env now st)) = []
   \<and> last_flush_time (fst (rabbitmq_flush env now st)) = now
   \<and> sqs_batch (sqs_flush env' now' st') = []
   \<and> receipt_handles (sqs_flush env' now' st') = []
   \<and> sqs_last_flush_time (sqs_flush env' now' st') = now'"
  by (simp add: rabbitmq_flush_def sqs_flush_def split: prod.splits option.splits)

subsection \<open>How a flush settles its batch\<close>

lemma rabbitmq_flush_committed:
  assumes "callback env (map fst (message_batch st)) = None"
    and "\<forall>t \<in> set (map snd (message_batch st)). basic_ack env t = None"
  shows "rabbitmq_flush env now st =
     (st\<lparr>message_batch := [], last_flush_time := now,
         trace := trace st @ Callback (map fst (message_batch st))
                  # map BasicAck (map snd (message_batch st))
                  @ [Log INFO ''Processed and acknowledged %d RabbitMQ messages'']\<rparr>, None)"
  using assms by (simp add: rabbitmq_flush_def rabbitmq_try_def Let_def for_each_ok)

lemma rabbitmq_flush_rejected:
  assumes "callback env (map fst (message_batch st)) = Some e"
    and "\<forall>t \<in> set (map snd (message_batch st)). basic_nack env t = None"
  shows "rabbitmq_flush env now st =
     (st\<lparr>message_batch := [], last_flush_time := now,
         trace := trace st @ [Callback (map fst (message_batch st)),
                    Log EXCEPTION ''Batch processing failed, NACKing all messages'']
                  @ map (\<lambda>t. BasicNack t False) (map snd (message_batch st))\<rparr>, None)"
  using assms by (simp add: rabbitmq_flush_def rabbitmq_try_def rabbitmq_except_def Let_def for_each_ok)

lemma sqs_flush_committed:
  assumes "sqs_callback env (sqs_batch st) = None"
    and "\<forall>h \<in> set (receipt_handles st). delete_message env h = None"
  shows "sqs_flush env now st =
     st\<lparr>sqs_batch := [], receipt_handles := [], sqs_last_flush_time := now,
        sqs_trace := sqs_trace st @ Callback (sqs_batch st)
                  # map DeleteMessage (receipt_handles st)
                  @ [Log INFO ''Processed and deleted %d SQS messages'']\<rparr>"
  using assms by (simp add: sqs_flush_def sqs_try_def for_each_ok)

lemma sqs_flush_rejected:
  assumes "sqs_callback env (sqs_batch st) = Some e"
  shows "sqs_flush env now st =
     st\<lparr>sqs_batch := [], receipt_handles := [], sqs_last_flush_time := now,
        sqs_trace := sqs_trace st @ [Callback (sqs_batch st),
                  Log EXCEPTION ''SQS batch processing failed, messages left in queue'']\<rparr>"
  using assms by (simp add: sqs_flush_def sqs_try_def)

text \<open>
  C2, as the code has it. When the callback returns and no call of \<^verbatim>\<open>basic_ack\<close>
  (\<^verbatim>\<open>delete_message\<close> for SQS) raises, the flush acknowledges (deletes) every token of
  the batch, in batch order, and nothing else. When the callback raises, the RabbitMQ
  listener calls \<^verbatim>\<open>basic_nack\<close> with \<^verbatim>\<open>requeue=False\<close> on every token, provided no such
  call raises, and the SQS listener makes no transport call at all.
\<close>

theorem flush_settles_batch:
  "(callback env1 (map fst (message_batch st1)) = None
      \<and> (\<forall>t \<in> set (map snd (message_batch st1)). basic_ack env1 t = None)
    \<longrightarrow> rabbitmq_flush env1 now st1 =
         (st1\<lparr>message_batch := [], last_flush_time := now,
              trace := trace st1 @ Callback (map fst (message_batch st1))
                  # map BasicAck (map snd (message_batch st1))
                  @ [Log INFO ''Processed and acknowledged %d RabbitMQ messages'']\<rparr>, None))
   \<and> (callback env2 (map fst (message_batch st2)) = Some e2
      \<and> (\<forall>t \<in> set (map snd (message_batch st2)). basic_nack env2 t = None)
    \<longrightarrow> rabbitmq_flush env2 now st2 =
         (st2\<lparr>message_batch := [], last_flush_time := now,
              trace := trace st2 @ [Callback (map fst (message_batch st2)),
                    Log EXCEPTION ''Batch processing failed, NACKing all messages'']
                  @ map (\<lambda>t. BasicNack t False) (map snd (message_batch st2))\<rparr>, None))
   \<and> (sqs_callback env3 (sqs_batch st3) = None
      \<and> (\<forall>h \<in> set (receipt_handles st3). delete_message env3 h = None)
    \<longrightarrow> sqs_flush env3 now st3 =
         st3\<lparr>sqs_batch := [], receipt_handles := [], sqs_last_flush_time := now,
             sqs_trace := sqs_trace st3 @ Callback (sqs_batch st3)
                  # map DeleteMessage (receipt_handles st3)
                  @ [Log INFO ''Processed and deleted %d SQS messages'']\<rparr>)
   \<and> (sqs_callback env4 (sqs_batch st4) = Some e4
    \<longrightarrow> sqs_flush env4 now st4 =
         st4\<lparr>sqs_batch := [], receipt_handles := [], sqs_last_flush_time := now,
             sqs_trace := sqs_trace st4 @ [Callback (sqs_batch st4),
                  Log EXCEPTION ''SQS batch processing failed, messages left in queue'']\<rparr>)"
  using rabbitmq_flush_committed [of env1 st1 now] rabbitmq_flush_rejected [of env2 st2 e2 now]
    sqs_flush_committed [of env3 st3 now] sqs_flush_rejected [of env4 st4 e4 now]
  by blast

theorem flush_settles_batch_witness:
  "rabbitmq_flush (quiet_env 7) 7 three_pending =
     (\<lparr>message_batch = [], last_flush_time = 7,
       trace = [Callback [id_message 1, id_message 2, id_message 3], BasicAck 1, BasicAck 2, BasicAck 3,
                Log INFO ''Processed and acknowledged %d RabbitMQ messages'']\<rparr>, None)
   \<and> rabbitmq_flush (callback_raises_env 7) 7 three_pending =
     (\<lparr>message_batch = [], last_flush_time = 7,
       trace = [Callback [id_message 1, id_message 2, id_message 3],
                Log EXCEPTION ''Batch processing failed, NACKing all messages'',
                BasicNack 1 False, BasicNack 2 False, BasicNack 3 False]\<rparr>, None)
   \<and> sqs_flush (quiet_poll 7 []) 7 two_pending =
     \<lparr>sqs_batch = [], receipt_handles = [], sqs_last_flush_time = 7,
      sqs_trace = [Log INFO ''Polling SQS queue: %s'', ReceiveMessage 3,
                   Callback [id_message 1, id_message 2], DeleteMessage ''h1'', DeleteMessage ''h2'',
                   Log INFO ''Processed and deleted %d SQS messages'']\<rparr>
   \<and> sqs_flush (callback_raises_poll 7 []) 7 two_pending =
     \<lparr>sqs_batch = [], receipt_handles = [], sqs_last_flush_time = 7,
      sqs_trace = [Log INFO ''Polling SQS queue: %s'', ReceiveMessage 3,
                   Callback [id_message 1, id_message 2],
                   Log EXCEPTION ''SQS batch processing failed, messages left in queue'']\<rparr>"
  using flush_settles_batch [of "quiet_env 7" three_pending 7 "callback_raises_env 7"
      three_pending "Exception ''OperationalError''" "quiet_poll 7 []" two_pending
      "callback_raises_poll 7 []" two_pending "Exception ''OperationalError''"]
  by (simp add: quiet_env_def callback_raises_env_def three_pending_def quiet_poll_def
      callback_raises_poll_def two_pending_def)

text \<open>
  C2 as stated fails: the settlement calls are inside the \<^verbatim>\<open>try\<close> block, so when the
  callback returns and \<^verbatim>\<open>basic_ack\<close> raises at the second of three tokens, the third is
  never acknowledged and all three are negatively acknowledged.
\<close>

theorem ack_failure_counterexample:
  "callback (ack_raises_env 7) (map fst (message_batch three_pending)) = None
   \<and> trace (fst (rabbitmq_flush (ack_raises_env 7) 7 three_pending)) =
       [Callback [id_message 1, id_message 2, id_message 3], BasicAck 1, BasicAck 2,
        Log EXCEPTION ''Batch processing failed, NACKing all messages'',
        BasicNack 1 False, BasicNack 2 False, BasicNack 3 False]
   \<and> BasicAck 3 \<notin> set (trace (fst (rabbitmq_flush (ack_raises_env 7) 7 three_pending)))"
  by (simp add: ack_raises_env_def three_pending_def rabbitmq_flush_def rabbitmq_try_def
      rabbitmq_except_def)

subsection \<open>Decoding failures and payloads\<close>

lemma map_filter_drop:
  "f x = None \<Longrightarrow> List.map_filter f (xs @ x # ys) = List.map_filter f (xs @ ys)"
  by (simp add: List.map_filter_def)

lemma decoded_undecodable:
  "loads body = None \<Longrightarrow> decoded loads \<lparr>Body = Some body, ReceiptHandle = h\<rparr> = None"
  by (simp add: decoded_def)

lemma on_message_undecodable:
  "loads body = None \<Longrightarrow>
   on_message cfg loads env st (tag, body) =
     (st\<lparr>trace := trace st @ [Log EXCEPTION ''Failed to parse RabbitMQ message'',
                               BasicNack tag False]\<rparr>,
      basic_nack env tag)"
  by (simp add: on_message_def)

lemma accepted_after_undecodable:
  assumes "loads body = None" and "loads body' = Some m" and "basic_nack env tag = None"
  shows "accepted (fst (process_data_events cfg loads st [(env, tag, body), (env', tag', body')])) =
           accepted st @ [m]"
proof -
  obtain st1 r1 where first: "on_message cfg loads env st (tag, body) = (st1, r1)"
    by (cases "on_message cfg loads env st (tag, body)")
  with assms(1,3) have r1: "r1 = None"
    by (simp add: on_message_undecodable)
  have a1: "accepted st1 = accepted st"
    using accepted_on_message [of cfg loads env st tag body] first assms(1) by simp
  obtain st2 r2 where second: "on_message cfg loads env' st1 (tag', body') = (st2, r2)"
    by (cases "on_message cfg loads env' st1 (tag', body')")
  have a2: "accepted st2 = accepted st1 @ [m]"
    using accepted_on_message [of cfg loads env' st1 tag' body'] second assms(2) by simp
  have "fst (process_data_events cfg loads st [(env, tag, body), (env', tag', body')]) = st2"
    using first r1 second by (cases r2) simp_all
  with a1 a2 show ?thesis by simp
qed

lemma sqs_append_undecodable:
  "loads body = None \<Longrightarrow>
   sqs_append loads st \<lparr>Body = Some body, ReceiptHandle = h\<rparr> =
     st\<lparr>sqs_trace := sqs_trace st @ [Log EXCEPTION ''Failed to parse SQS message'']\<rparr>"
  by (simp add: sqs_append_def sqs_parse_failed_def)

text \<open>
  C3, as the code has it. A delivery whose body does not decode changes nothing but the
  trace: the RabbitMQ listener logs it and calls \<^verbatim>\<open>basic_nack\<close> on its tag with
  \<^verbatim>\<open>requeue=False\<close>, at once and without testing the flush condition; the SQS listener
  appends one log record. The message reaches no batch. On the RabbitMQ listener a valid
  delivery that follows is taken as if the failed one had not been there, provided the
  \<^verbatim>\<open>basic_nack\<close> of the failed one did not raise; and a poll with the failed message
  hands the callback the same payloads and leaves the same batch and receipt handles as the
  poll without it.
\<close>

theorem decode_failure_is_dropped:
  "(loads body = None \<longrightarrow>
      on_message cfg loads env st (tag, body) =
        (st\<lparr>trace := trace st @ [Log EXCEPTION ''Failed to parse RabbitMQ message'',
                                  BasicNack tag False]\<rparr>,
         basic_nack env tag))
   \<and> (loads body = None \<and> loads body' = Some m \<and> basic_nack env tag = None \<longrightarrow>
      accepted (fst (process_data_events cfg loads st [(env, tag, body), (env', tag', body')])) =
        accepted st @ [m])
   \<and> (loads body = None \<longrightarrow>
      sqs_append loads st' \<lparr>Body = Some body, ReceiptHandle = h\<rparr> =
        st'\<lparr>sqs_trace := sqs_trace st' @ [Log EXCEPTION ''Failed to parse SQS message'']\<rparr>
      \<and> sqs_batch (sqs_append_all loads st' (before @ \<lparr>Body = Some body, ReceiptHandle = h\<rparr> # after))
          = sqs_batch (sqs_append_all loads st' (before @ after))
      \<and> receipt_handles (sqs_append_all loads st' (before @ \<lparr>Body = Some body, ReceiptHandle = h\<rparr> # after))
          = receipt_handles (sqs_append_all loads st' (before @ after))
      \<and> dispatched (sqs_trace (sqs_iteration cfg loads
            (env''\<lparr>receive_message := Inr (before @ \<lparr>Body = Some body, ReceiptHandle = h\<rparr> # after)\<rparr>) st'))
          = dispatched (sqs_trace (sqs_iteration cfg loads
            (env''\<lparr>receive_message := Inr (before @ after)\<rparr>) st')))"
proof (intro conjI impI)
  assume "loads body = None"
  then show "on_message cfg loads env st (tag, body) =
        (st\<lparr>trace := trace st @ [Log EXCEPTION ''Failed to parse RabbitMQ message'',
                                  BasicNack tag False]\<rparr>,
         basic_nack env tag)"
    by (rule on_message_undecodable)
next
  assume "loads body = None \<and> loads body' = Some m \<and> basic_nack env tag = None"
  then show "accepted (fst (process_data_events cfg loads st [(env, tag, body), (env', tag', body')])) =
        accepted st @ [m]"
    by (blast intro: accepted_after_undecodable)
next
  assume "loads body = None"
  then show "sqs_append loads st' \<lparr>Body = Some body, ReceiptHandle = h\<rparr> =
        st'\<lparr>sqs_trace := sqs_trace st' @ [Log EXCEPTION ''Failed to parse SQS message'']\<rparr>"
    by (rule sqs_append_undecodable)
next
  assume "loads body = None"
  then have "decoded loads \<lparr>Body = Some body, ReceiptHandle = h\<rparr> = None"
    by (rule decoded_undecodable)
  then show "sqs_batch (sqs_append_all loads st' (before @ \<lparr>Body = Some body, ReceiptHandle = h\<rparr> # after))
          = sqs_batch (sqs_append_all loads st' (before @ after))"
    by (simp add: sqs_append_all_fields map_filter_drop)
next
  assume "loads body = None"
  then have "handle_of loads \<lparr>Body = Some body, ReceiptHandle = h\<rparr> = None"
    by (simp add: handle_of_def decoded_def)
  then show "receipt_handles (sqs_append_all loads st' (before @ \<lparr>Body = Some body, ReceiptHandle = h\<rparr> # after))
          = receipt_handles (sqs_append_all loads st' (before @ after))"
    by (simp add: sqs_append_all_fields map_filter_drop)
next
  assume "loads body = None"
  then have "decoded loads \<lparr>Body = Some body, ReceiptHandle = h\<rparr> = None"
    by (rule decoded_undecodable)
  then show "dispatched (sqs_trace (sqs_iteration cfg loads
            (env''\<lparr>receive_message := Inr (before @ \<lparr>Body = Some body, ReceiptHandle = h\<rparr> # after)\<rparr>) st'))
          = dispatched (sqs_trace (sqs_iteration cfg loads
            (env''\<lparr>receive_message := Inr (before @ after)\<rparr>) st'))"
    by (simp add: dispatched_sqs_iteration map_filter_drop)
qed

theorem decode_failure_is_dropped_witness:
  "sample_loads ''not json'' = None \<and> sample_loads (id_body ''2'') = Some (id_message 2)
   \<and> basic_nack (quiet_env 1) 1 = None
   \<and> on_message (sample_cfg 3) sample_loads (quiet_env 1) (rabbitmq_init (sample_cfg 3) 0)
        (1, ''not json'') =
      (\<lparr>message_batch = [], last_flush_time = 0,
        trace = [QueueDeclare, BasicQos 3, BasicConsume,
                 Log INFO ''Listening on RabbitMQ queue: %s'',
                 Log EXCEPTION ''Failed to parse RabbitMQ message'', BasicNack 1 False]\<rparr>, None)
   \<and> accepted (fst (process_data_events (sample_cfg 3) sample_loads
        (rabbitmq_init (sample_cfg 3) 0)
        [(quiet_env 1, 1, ''not json''), (quiet_env 2, 2, id_body ''2'')])) = [id_message 2]
   \<and> sqs_append sample_loads (sqs_init 0) \<lparr>Body = Some ''not json'', ReceiptHandle = Some ''h2''\<rparr> =
      \<lparr>sqs_batch = [], receipt_handles = [], sqs_last_flush_time = 0,
       sqs_trace = [Log INFO ''Polling SQS queue: %s'',
                    Log EXCEPTION ''Failed to parse SQS message'']\<rparr>
   \<and> sqs_batch (sqs_append_all sample_loads (sqs_init 0)
        [sqs_msg (id_body ''1'') ''h1'', sqs_msg ''not json'' ''h2'', sqs_msg (id_body ''3'') ''h3''])
      = [id_message 1, id_message 3]
   \<and> receipt_handles (sqs_append_all sample_loads (sqs_init 0)
        [sqs_msg (id_body ''1'') ''h1'', sqs_msg ''not json'' ''h2'', sqs_msg (id_body ''3'') ''h3''])
      = [''h1'', ''h3'']"
  using decode_failure_is_dropped [where loads = sample_loads and body = "''not json''"
      and body' = "id_body ''2''" and m = "id_message 2" and cfg = "sample_cfg 3" and env = "quiet_env 1"
      and env' = "quiet_env 2" and st = "rabbitmq_init (sample_cfg 3) 0" and tag = 1 and tag' = 2
      and st' = "sqs_init 0" and h = "Some ''h2''" and before = "[sqs_msg (id_body ''1'') ''h1'']"
      and after = "[sqs_msg (id_body ''3'') ''h3'']" and env'' = "quiet_poll 1 []"]
  by (simp add: sample_loads_def id_body_def sample_cfg_def quiet_env_def rabbitmq_init_def
      accepted_def on_message_def sqs_init_def sqs_msg_def sqs_append_def sqs_parse_failed_def)

text \<open>
  C3 as stated fails on the RabbitMQ listener when the \<^verbatim>\<open>basic_nack\<close> of line 73
  raises: the call is made inside the \<^verbatim>\<open>except\<close> block, so the exception leaves
  \<^verbatim>\<open>on_message\<close> and the listener, and the valid delivery that follows is never
  appended.
\<close>

theorem nack_failure_counterexample:
  "sample_loads ''not json'' = None \<and> sample_loads (id_body ''2'') = Some (id_message 2)
   \<and> start_rabbitmq_listener (sample_cfg 3) sample_loads False 0 [(False, malformed_then_valid)] =
      (\<lparr>message_batch = [], last_flush_time = 0,
        trace = [QueueDeclare, BasicQos 3, BasicConsume,
                 Log INFO ''Listening on RabbitMQ queue: %s'',
                 Log EXCEPTION ''Failed to parse RabbitMQ message'', BasicNack 1 False,
                 StopConsuming, ConnectionClose]\<rparr>,
       Raised (Exception ''ChannelWrongStateError''))
   \<and> accepted (fst (start_rabbitmq_listener (sample_cfg 3) sample_loads False 0
        [(False, malformed_then_valid)])) = []"
  by (simp add: malformed_then_valid_def nack_raises_env_def quiet_env_def sample_loads_def
      id_body_def sample_cfg_def rabbitmq_init_def start_rabbitmq_listener_def
      rabbitmq_listen_def rabbitmq_signal_def on_message_def accepted_def)



subsection \<open>Shutdown\<close>


lemma rabbitmq_signal_fields:
  "message_batch (rabbitmq_signal signal st) = message_batch st"
  "last_flush_time (rabbitmq_signal signal st) = last_flush_time st"
  "dispatched (trace (rabbitmq_signal signal st)) = dispatched (trace st)"
  by (simp_all add: rabbitmq_signal_def graceful_shutdown_def dispatched_append)

lemma sqs_signal_fields:
  "sqs_batch (sqs_signal signal st) = sqs_batch st"
  "receipt_handles (sqs_signal signal st) = receipt_handles st"
  "sqs_last_flush_time (sqs_signal signal st) = sqs_last_flush_time st"
  "dispatched (sqs_trace (sqs_signal signal st)) = dispatched (sqs_trace st)"
  by (simp_all add: sqs_signal_def graceful_shutdown_def dispatched_append)







subsection \<open>The callback never gets an empty batch\<close>

lemma on_message_nonempty:
  "[] \<notin> set (dispatched (trace st)) \<Longrightarrow>
   [] \<notin> set (dispatched (trace (fst (on_message cfg loads env st d))))"
  by (cases d) (simp add: dispatched_on_message split: option.splits)

lemma process_data_events_nonempty:
  "[] \<notin> set (dispatched (trace st)) \<Longrightarrow>
   [] \<notin> set (dispatched (trace (fst (process_data_events cfg loads st ds))))"
proof (induction ds arbitrary: st)
  case Nil
  then show ?case by simp
next
  case (Cons a ds)
  obtain env d where a: "a = (env, d)" by (cases a)
  obtain st' r where step: "on_message cfg loads env st d = (st', r)"
    by (cases "on_message cfg loads env st d")
  have ok: "[] \<notin> set (dispatched (trace st'))"
    using on_message_nonempty [OF Cons.prems, of cfg loads env d] step by simp
  show ?case
  proof (cases r)
    case None
    with a step Cons.IH [OF ok] show ?thesis by simp
  next
    case (Some e)
    with a step ok show ?thesis by simp
  qed
qed

lemma rabbitmq_loop_nonempty:
  "[] \<notin> set (dispatched (trace st)) \<Longrightarrow>
   [] \<notin> set (dispatched (trace (fst (rabbitmq_loop cfg loads is_set st its))))"
proof (induction its arbitrary: st is_set)
  case Nil
  then show ?case by (cases is_set) simp_all
next
  case (Cons it its)
  obtain signal ds where it: "it = (signal, ds)" by (cases it)
  have sig: "[] \<notin> set (dispatched (trace (rabbitmq_signal signal st)))"
    using Cons.prems by (simp add: rabbitmq_signal_fields)
  obtain st' r where pde: "process_data_events cfg loads (rabbitmq_signal signal st) ds = (st', r)"
    by (cases "process_data_events cfg loads (rabbitmq_signal signal st) ds")
  have ok: "[] \<notin> set (dispatched (trace st'))"
    using process_data_events_nonempty [OF sig, of cfg loads ds] pde by simp
  show ?case
  proof (cases is_set)
    case True
    with Cons.prems show ?thesis by simp
  next
    case False
    show ?thesis
    proof (cases r)
      case None
      with False it pde Cons.IH [OF ok] show ?thesis by simp
    next
      case (Some e)
      with False it pde ok show ?thesis by simp
    qed
  qed
qed

lemma rabbitmq_listen_nonempty:
  assumes "[] \<notin> set (dispatched (trace st))"
  shows "[] \<notin> set (dispatched (trace (fst (rabbitmq_listen cfg loads is_set st its))))"
proof -
  obtain st' r where l: "rabbitmq_loop cfg loads is_set st its = (st', r)"
    by (cases "rabbitmq_loop cfg loads is_set st its")
  have "[] \<notin> set (dispatched (trace st'))"
    using rabbitmq_loop_nonempty [OF assms, of cfg loads is_set its] l by simp
  with l show ?thesis
    by (cases r) (simp_all add: rabbitmq_listen_def dispatched_append)
qed

lemma sqs_iteration_nonempty:
  "[] \<notin> set (dispatched (sqs_trace st)) \<Longrightarrow>
   [] \<notin> set (dispatched (sqs_trace (sqs_iteration cfg loads env st)))"
  by (auto simp: dispatched_sqs_iteration split: sum.splits)

lemma sqs_loop_nonempty:
  "[] \<notin> set (dispatched (sqs_trace st)) \<Longrightarrow>
   [] \<notin> set (dispatched (sqs_trace (fst (sqs_loop cfg loads is_set st its))))"
proof (induction its arbitrary: st is_set)
  case Nil
  then show ?case by (cases is_set) simp_all
next
  case (Cons it its)
  obtain signal env where it: "it = (signal, env)" by (cases it)
  have sig: "[] \<notin> set (dispatched (sqs_trace (sqs_signal signal st)))"
    using Cons.prems by (simp add: sqs_signal_fields)
  show ?case
  proof (cases is_set)
    case True
    with Cons.prems show ?thesis by simp
  next
    case False
    with it Cons.IH [OF sqs_iteration_nonempty [OF sig]] show ?thesis by simp
  qed
qed

text \<open>
  C9. In a run of either listener the callback is never invoked with an empty batch: the
  RabbitMQ listener tests the flush condition right after an append, and the SQS listener
  tests that the batch is not empty before it flushes.
\<close>

theorem dispatch_never_empty:
  "[] \<notin> set (dispatched (trace (fst (start_rabbitmq_listener cfg loads is_set start its))))
   \<and> [] \<notin> set (dispatched (sqs_trace (fst (start_sqs_listener cfg loads client is_set' start polls))))"
proof
  have "[] \<notin> set (dispatched (trace (rabbitmq_init cfg start :: 'a rabbitmq_state)))"
    by (simp add: rabbitmq_init_def)
  then show "[] \<notin> set (dispatched (trace (fst (start_rabbitmq_listener cfg loads is_set start its))))"
    unfolding start_rabbitmq_listener_def by (rule rabbitmq_listen_nonempty)
next
  have "[] \<notin> set (dispatched (sqs_trace (sqs_init start :: 'b sqs_state)))"
    by (simp add: sqs_init_def)
  then have "[] \<notin> set (dispatched (sqs_trace (fst (sqs_loop cfg loads is_set' (sqs_init start) polls))))"
    by (rule sqs_loop_nonempty)
  then show "[] \<notin> set (dispatched (sqs_trace (fst (start_sqs_listener cfg loads client is_set' start polls))))"
    by (cases client) (simp_all add: start_sqs_listener_def)
qed

subsection \<open>Transport errors in the SQS loop\<close>













subsection \<open>The length of a batch when it is flushed\<close>

lemma on_message_bounded:
  assumes "1 \<le> batch_size cfg" and "push_bounded cfg st"
  shows "push_bounded cfg (fst (on_message cfg loads env st d))"
proof -
  obtain tag body where d: "d = (tag, body)" by (cases d)
  show ?thesis
    using assms unfolding d push_bounded_def
    by (auto simp: dispatched_on_message message_batch_on_message split: option.splits)
qed

lemma process_data_events_bounded:
  assumes "1 \<le> batch_size cfg"
  shows "push_bounded cfg st \<Longrightarrow> push_bounded cfg (fst (process_data_events cfg loads st ds))"
proof (induction ds arbitrary: st)
  case Nil
  then show ?case by simp
next
  case (Cons a ds)
  obtain env d where a: "a = (env, d)" by (cases a)
  obtain st' r where step: "on_message cfg loads env st d = (st', r)"
    by (cases "on_message cfg loads env st d")
  have ok: "push_bounded cfg st'"
    using on_message_bounded [OF assms Cons.prems, of loads env d] step by simp
  show ?case
  proof (cases r)
    case None
    with a step Cons.IH [OF ok] show ?thesis by simp
  next
    case (Some e)
    with a step ok show ?thesis by simp
  qed
qed

lemma rabbitmq_signal_bounded:
  "push_bounded cfg st \<Longrightarrow> push_bounded cfg (rabbitmq_signal signal st)"
  by (simp add: push_bounded_def rabbitmq_signal_fields)

lemma rabbitmq_loop_bounded:
  assumes "1 \<le> batch_size cfg"
  shows "push_bounded cfg st \<Longrightarrow> push_bounded cfg (fst (rabbitmq_loop cfg loads is_set st its))"
proof (induction its arbitrary: st is_set)
  case Nil
  then show ?case by (cases is_set) simp_all
next
  case (Cons it its)
  obtain signal ds where it: "it = (signal, ds)" by (cases it)
  have sig: "push_bounded cfg (rabbitmq_signal signal st)"
    using Cons.prems by (rule rabbitmq_signal_bounded)
  obtain st' r where pde: "process_data_events cfg loads (rabbitmq_signal signal st) ds = (st', r)"
    by (cases "process_data_events cfg loads (rabbitmq_signal signal st) ds")
  have ok: "push_bounded cfg st'"
    using process_data_events_bounded [OF assms sig, of loads ds] pde by simp
  show ?case
  proof (cases is_set)
    case True
    with Cons.prems show ?thesis by simp
  next
    case False
    show ?thesis
    proof (cases r)
      case None
      with False it pde Cons.IH [OF ok] show ?thesis by simp
    next
      case (Some e)
      with False it pde ok show ?thesis by simp
    qed
  qed
qed

lemma rabbitmq_listener_bounded:
  assumes "1 \<le> batch_size cfg"
  shows "\<forall>p \<in> set (dispatched (trace (fst (start_rabbitmq_listener cfg loads is_set start its)))).
           int (length p) \<le> batch_size cfg"
proof -
  have "push_bounded cfg (rabbitmq_init cfg start :: 'a rabbitmq_state)"
    using assms by (simp add: push_bounded_def rabbitmq_init_def)
  then have b: "push_bounded cfg (fst (rabbitmq_loop cfg loads is_set (rabbitmq_init cfg start) its))"
    by (rule rabbitmq_loop_bounded [OF assms])
  obtain st' r where l: "rabbitmq_loop cfg loads is_set (rabbitmq_init cfg start) its = (st', r)"
    by (cases "rabbitmq_loop cfg loads is_set (rabbitmq_init cfg start) its")
  with b show ?thesis
    by (cases r)
      (simp_all add: start_rabbitmq_listener_def rabbitmq_listen_def push_bounded_def
        dispatched_append)
qed

lemma length_map_filter_le: "length (List.map_filter f xs) \<le> length xs"
  by (simp add: List.map_filter_def)

lemma sqs_iteration_bounded:
  assumes "1 \<le> batch_size cfg" and "sqs_bounded cfg st"
    and "\<forall>ms. receive_message env = Inr ms \<longrightarrow> int (length ms) \<le> batch_size cfg"
  shows "sqs_bounded cfg (sqs_iteration cfg loads env st)"
proof (cases "receive_message env")
  case (Inl e)
  with assms(2) show ?thesis
    by (simp add: sqs_bounded_def dispatched_sqs_iteration sqs_batch_sqs_iteration)
next
  case (Inr ms)
  with assms(3) have "int (length ms) \<le> batch_size cfg" by simp
  moreover have "length (List.map_filter (decoded loads) ms) \<le> length ms"
    by (rule length_map_filter_le)
  ultimately have "int (length (List.map_filter (decoded loads) ms)) \<le> batch_size cfg"
    by linarith
  with assms(1,2) Inr show ?thesis
    by (auto simp: sqs_bounded_def dispatched_sqs_iteration sqs_batch_sqs_iteration)
qed

lemma sqs_signal_bounded:
  "sqs_bounded cfg st \<Longrightarrow> sqs_bounded cfg (sqs_signal signal st)"
  by (simp add: sqs_bounded_def sqs_signal_fields)

lemma sqs_loop_bounded:
  assumes "1 \<le> batch_size cfg"
  shows "sqs_bounded cfg st \<Longrightarrow>
    \<forall>it \<in> set polls. \<forall>ms. receive_message (snd it) = Inr ms \<longrightarrow> int (length ms) \<le> batch_size cfg \<Longrightarrow>
    sqs_bounded cfg (fst (sqs_loop cfg loads is_set st polls))"
proof (induction polls arbitrary: st is_set)
  case Nil
  then show ?case by (cases is_set) simp_all
next
  case (Cons it polls)
  obtain signal env where it: "it = (signal, env)" by (cases it)
  from Cons.prems(2) it
  have here: "\<forall>ms. receive_message env = Inr ms \<longrightarrow> int (length ms) \<le> batch_size cfg"
    and later: "\<forall>it \<in> set polls. \<forall>ms. receive_message (snd it) = Inr ms \<longrightarrow> int (length ms) \<le> batch_size cfg"
    by simp_all
  have sig: "sqs_bounded cfg (sqs_signal signal st)"
    using Cons.prems(1) by (rule sqs_signal_bounded)
  have ok: "sqs_bounded cfg (sqs_iteration cfg loads env (sqs_signal signal st))"
    using assms sig here by (rule sqs_iteration_bounded)
  show ?case
  proof (cases is_set)
    case True
    with Cons.prems(1) show ?thesis by simp
  next
    case False
    with it Cons.IH [OF ok later] show ?thesis by simp
  qed
qed

lemma sqs_listener_bounded:
  assumes "1 \<le> batch_size cfg"
    and "\<forall>it \<in> set polls. \<forall>ms. receive_message (snd it) = Inr ms \<longrightarrow> int (length ms) \<le> batch_size cfg"
  shows "\<forall>p \<in> set (dispatched (sqs_trace (fst (start_sqs_listener cfg loads client is_set start polls)))).
           int (length p) < 2 * batch_size cfg"
proof (cases client)
  case (Some e)
  then show ?thesis by (simp add: start_sqs_listener_def)
next
  case None
  have "sqs_bounded cfg (sqs_init start :: 'a sqs_state)"
    using assms(1) by (simp add: sqs_bounded_def sqs_init_def)
  then have "sqs_bounded cfg (fst (sqs_loop cfg loads is_set (sqs_init start) polls))"
    using assms(2) by (rule sqs_loop_bounded [OF assms(1)])
  with None show ?thesis
    by (simp add: start_sqs_listener_def sqs_bounded_def)
qed

text \<open>
  C5, as the code has it, for a batch size of at least 1. The RabbitMQ listener takes one
  message at a time and tests the flush condition after each, so a flushed batch never has
  more than \<open>batch_size\<close> messages. The SQS listener appends a whole poll before it
  tests the condition: when every poll returns at most \<open>batch_size\<close> messages (the
  \<^verbatim>\<open>MaxNumberOfMessages\<close> of the request), a flushed batch has fewer than twice
  \<open>batch_size\<close> messages.
\<close>

theorem batch_length_at_flush:
  "(1 \<le> batch_size cfg \<longrightarrow>
      (\<forall>p \<in> set (dispatched (trace (fst (start_rabbitmq_listener cfg loads is_set start its)))).
         int (length p) \<le> batch_size cfg))
   \<and> (1 \<le> batch_size cfg
      \<and> (\<forall>it \<in> set polls. \<forall>ms. receive_message (snd it) = Inr ms \<longrightarrow>
            int (length ms) \<le> batch_size cfg) \<longrightarrow>
      (\<forall>p \<in> set (dispatched (sqs_trace (fst (start_sqs_listener cfg loads client is_set' start' polls)))).
         int (length p) < 2 * batch_size cfg))"
  using rabbitmq_listener_bounded [of cfg loads is_set start its]
    sqs_listener_bounded [of cfg polls loads client is_set' start']
  by blast

theorem batch_length_at_flush_witness:
  "1 \<le> batch_size (sample_cfg 3)
   \<and> dispatched (trace (fst (start_rabbitmq_listener (sample_cfg 3) sample_loads False 0
        [(False, three_deliveries)]))) = [[id_message 1, id_message 2, id_message 3]]
   \<and> int (length [id_message 1, id_message 2, id_message 3]) \<le> batch_size (sample_cfg 3)
   \<and> dispatched (sqs_trace (fst (start_sqs_listener (sample_cfg 3) sample_loads None False 0
        five_in_two_polls))) = [[id_message 1, id_message 2, id_message 3, id_message 4, id_message 5]]
   \<and> int (length [id_message 1, id_message 2, id_message 3, id_message 4, id_message 5]) < 2 * batch_size (sample_cfg 3)"
  using batch_length_at_flush [where cfg = "sample_cfg 3" and loads = sample_loads
      and start = 0 and its = "[(False, three_deliveries)]" and polls = five_in_two_polls
      and client = None and start' = 0 and is_set = False and is_set' = False]
  by (simp add: three_deliveries_def five_in_two_polls_def sample_loads_def id_body_def sample_cfg_def
      quiet_env_def quiet_poll_def sqs_msg_def rabbitmq_init_def sqs_init_def
      start_rabbitmq_listener_def rabbitmq_listen_def start_sqs_listener_def
      rabbitmq_signal_def sqs_signal_def
      on_message_def rabbitmq_flush_def rabbitmq_try_def
      sqs_iteration_def sqs_poll_def sqs_append_def sqs_flush_def sqs_try_def)

text \<open>
  C5 as stated fails for the SQS listener: with \<open>batch_size = 3\<close>, a poll of two messages
  (below the threshold, no flush) followed by a poll of three is flushed as one batch of
  five.
\<close>

theorem sqs_batch_exceeds_cap_counterexample:
  "dispatched (sqs_trace (fst (start_sqs_listener (sample_cfg 3) sample_loads None False 0
        five_in_two_polls))) = [[id_message 1, id_message 2, id_message 3, id_message 4, id_message 5]]
   \<and> batch_size (sample_cfg 3) < int (length [id_message 1, id_message 2, id_message 3, id_message 4, id_message 5])"
  by (simp add: five_in_two_polls_def sample_loads_def id_body_def sample_cfg_def
      quiet_poll_def sqs_msg_def sqs_init_def start_sqs_listener_def sqs_signal_def
      sqs_iteration_def sqs_poll_def sqs_append_def sqs_flush_def sqs_try_def)

subsection \<open>The flush timeout while no message arrives\<close>

lemma rabbitmq_loop_idle:
  "rabbitmq_loop cfg loads False st (replicate n (False, []) @ its) =
     rabbitmq_loop cfg loads False st its"
  by (induction n) (simp_all add: rabbitmq_signal_def)

lemma rabbitmq_loop_idle_only:
  "rabbitmq_loop cfg loads False st (replicate n (False, [])) = (st, Running)"
  using rabbitmq_loop_idle [of cfg loads st n "[]"] by simp

lemma sqs_idle_timeout_flush:
  assumes "sqs_batch st \<noteq> []" and "receive_message env = Inr []"
    and "sqs_time env - sqs_last_flush_time st \<ge> flush_timeout cfg"
  shows "dispatched (sqs_trace (sqs_iteration cfg loads env st)) =
           dispatched (sqs_trace st) @ [sqs_batch st]"
  using assms by (simp add: dispatched_sqs_iteration)

text \<open>
  C4 at its own scenario, \<open>batch_size = 5\<close> and a timeout of 60 seconds. The RabbitMQ
  listener tests the flush condition only inside \<^verbatim>\<open>on_message\<close>: two messages arrive at
  time 0, then 61 calls of \<^verbatim>\<open>process_data_events(time_limit=1)\<close> pass without a
  delivery, and nothing has been handed to the callback; both messages are still pending.
  When a third message arrives at time 62, the callback gets all three. The SQS listener,
  which tests the condition on every pass, hands over exactly the two once a poll returns
  at time 61.
\<close>

theorem rabbitmq_idle_timeout_not_flushed:
  "rabbitmq_loop (sample_cfg 5) sample_loads False (rabbitmq_init (sample_cfg 5) 0)
      ((False, two_deliveries) # replicate 61 (False, [])) =
     (\<lparr>message_batch = [(id_message 1, 1), (id_message 2, 2)], last_flush_time = 0,
       trace = [QueueDeclare, BasicQos 5, BasicConsume,
                Log INFO ''Listening on RabbitMQ queue: %s'']\<rparr>, Running)
   \<and> dispatched (trace (fst (rabbitmq_loop (sample_cfg 5) sample_loads False
        (rabbitmq_init (sample_cfg 5) 0)
        ((False, two_deliveries) # replicate 61 (False, []) @ [(False, late_delivery)])))) =
       [[id_message 1, id_message 2, id_message 3]]
   \<and> dispatched (sqs_trace (fst (sqs_loop (sample_cfg 5) sample_loads False (sqs_init 0)
        [(False, quiet_poll 0 [sqs_msg (id_body ''1'') ''h1'', sqs_msg (id_body ''2'') ''h2'']),
         idle_poll 10, idle_poll 20, idle_poll 30, idle_poll 40, idle_poll 50,
         idle_poll 61]))) = [[id_message 1, id_message 2]]"
  by (simp add: rabbitmq_loop_idle rabbitmq_loop_idle_only two_deliveries_def late_delivery_def idle_poll_def
      sample_loads_def id_body_def sample_cfg_def
      quiet_env_def quiet_poll_def sqs_msg_def rabbitmq_init_def sqs_init_def
      rabbitmq_signal_def sqs_signal_def on_message_def rabbitmq_flush_def rabbitmq_try_def
      sqs_iteration_def sqs_poll_def sqs_append_def sqs_flush_def sqs_try_def)

end
